theory Spec2Isabelle
  imports Main
begin

section \<open>The shape class of p5 (\<^verbatim>\<open>p5/core/shape.py\<close>)\<close>

text \<open>
  The class \<^verbatim>\<open>PShape\<close> keeps a vertex array, lazily computed edge arrays, the
  result of an external triangulation and an edit-mode flag. The model is a record
  of the fields the accessors and mutators read and write; every method is a
  function from the state to an outcome and the state after it. A Python exception
  is the outcome \<open>Inl e\<close>, together with the state as it was when the exception
  left the method (assignments made before the \<^verbatim>\<open>raise\<close> stay).

  A private attribute \<^verbatim>\<open>_x\<close> of the class is the field \<open>u_x\<close> of the record
  (an Isabelle name cannot start with an underscore). Colours, the transformation
  matrices, \<^verbatim>\<open>children\<close> and \<^verbatim>\<open>visible\<close> take no part in vertices, edges,
  triangulation or editing and are left out.
\<close>

subsection \<open>Exceptions\<close>

datatype error =
    ValueError string
  | IndexError
  | TypeError
  | AttributeError

subsection \<open>The part of numpy that the class uses\<close>

text \<open>
  An array is one-dimensional (\<open>Arr1 xs\<close>, shape \<open>(len xs,)\<close>) or two-dimensional
  (\<open>Arr2 c rows\<close>, shape \<open>(len rows, c)\<close>; every row has \<open>c\<close> entries). The column
  count is kept apart from the rows because an array may have no row and still two
  dimensions, as \<^verbatim>\<open>np.zeros((0, 1))\<close> has.

  The numbers of a point and the entries of an array have one type \<open>'a\<close>. An array
  has a fixed element type, chosen when it is built, and an assignment into it
  converts the assigned numbers to that element type (a float written into an
  array of integers is truncated, an integer outside the range of the element type
  wraps). That conversion is not computed here: it is the parameter \<open>cast\<close> of
  \<open>setitem\<close>, and what is proved about an assignment holds for every conversion.
\<close>

datatype 'a ndarray = Arr1 "'a list" | Arr2 nat "'a list list"

fun shape :: "'a ndarray \<Rightarrow> nat list" where
  "shape (Arr1 xs) = [length xs]"
| "shape (Arr2 c rows) = [length rows, c]"

text \<open>\<^verbatim>\<open>n, _ = a.shape\<close>: unpacking a tuple that has not exactly two entries raises.\<close>

fun unpack2 :: "nat list \<Rightarrow> error + (nat \<times> nat)" where
  "unpack2 [n, c] = Inr (n, c)"
| "unpack2 [] = Inl (ValueError ''not enough values to unpack'')"
| "unpack2 [n] = Inl (ValueError ''not enough values to unpack'')"
| "unpack2 (n # c # d # ds) = Inl (ValueError ''too many values to unpack'')"

text \<open>
  \<^verbatim>\<open>np.array(rows)\<close> for a list of lists of scalars: the array holds the numbers
  of the rows, in their order; the common element type that numpy chooses for them
  is not represented. The empty list gives the one-dimensional empty array of
  shape \<open>(0,)\<close>. Rows of different lengths are
  refused, as numpy does since version 1.24 (older versions build an array of
  objects); \<open>sanitize_rows_length\<close> below shows that the class never passes
  such rows when the target dimension is at most the source dimension, which is
  how it always calls the sanitizer.
\<close>

fun np_array :: "'a list list \<Rightarrow> error + 'a ndarray" where
  "np_array [] = Inr (Arr1 [])"
| "np_array (r # rs) =
     (if list_all (\<lambda>r'. length r' = length r) rs then Inr (Arr2 (length r) (r # rs))
      else Inl (ValueError ''inhomogeneous shape''))"

text \<open>\<^verbatim>\<open>np.zeros((n, 1))\<close>.\<close>

definition zeros_col :: "nat \<Rightarrow> 'a::zero ndarray" where
  "zeros_col n = Arr2 1 (replicate n [0])"

text \<open>
  \<^verbatim>\<open>np.hstack([a, b])\<close>: when the first array is one-dimensional the arrays are
  joined along axis 0, otherwise along axis 1; joining arrays of different numbers
  of dimensions, or of different row counts along axis 1, raises \<^verbatim>\<open>ValueError\<close>.
\<close>

fun hstack :: "'a ndarray \<Rightarrow> 'a ndarray \<Rightarrow> error + 'a ndarray" where
  "hstack (Arr1 xs) (Arr1 ys) = Inr (Arr1 (xs @ ys))"
| "hstack (Arr1 xs) (Arr2 d rows') =
     Inl (ValueError ''all the input arrays must have same number of dimensions'')"
| "hstack (Arr2 c rows) (Arr1 ys) =
     Inl (ValueError ''all the input arrays must have same number of dimensions'')"
| "hstack (Arr2 c rows) (Arr2 d rows') =
     (if length rows = length rows'
      then Inr (Arr2 (c + d) (map (\<lambda>(r, r'). r @ r') (zip rows rows')))
      else Inl (ValueError ''all the input array dimensions must match exactly''))"

text \<open>\<^verbatim>\<open>np.arange(m)\<close> for an integer \<open>m\<close>; empty when \<open>m \<le> 0\<close>.\<close>

definition arange :: "int \<Rightarrow> int list" where
  "arange m = map int [0 ..< nat m]"

text \<open>
  \<^verbatim>\<open>np.vstack([xs, ys]).transpose()\<close> for two one-dimensional arrays of the same
  length: the array of shape \<open>(len xs, 2)\<close> whose row \<open>i\<close> is \<open>[xs[i], ys[i]]\<close>.
\<close>

definition vstack_transpose :: "'a list \<Rightarrow> 'a list \<Rightarrow> 'a ndarray" where
  "vstack_transpose xs ys = Arr2 2 (map (\<lambda>(x, y). [x, y]) (zip xs ys))"

text \<open>Python's index rule: a negative index counts from the end.\<close>

definition normalize_index :: "int \<Rightarrow> nat \<Rightarrow> error + nat" where
  "normalize_index idx n =
     (let j = (if idx < 0 then idx + int n else idx)
      in if 0 \<le> j \<and> j < int n then Inr (nat j) else Inl IndexError)"

text \<open>
  The conversion an assignment makes: \<open>cast a v x\<close> is the number stored for the
  entry \<open>x\<close> of the point \<open>v\<close> when \<^verbatim>\<open>np.array(v)\<close> is written into the array
  \<open>a\<close>. It may depend on the whole point, from which \<^verbatim>\<open>np.array\<close> chooses the
  element type of the value, and on the array written into, whose element type is
  the target.
\<close>

type_synonym 'a caster = "'a ndarray \<Rightarrow> 'a list \<Rightarrow> 'a \<Rightarrow> 'a"

text \<open>
  \<^verbatim>\<open>a[idx] = np.array(v)\<close> for an integer \<open>idx\<close> and a list \<open>v\<close> of scalars. The
  index is resolved first; then \<open>v\<close> is broadcast to the selected entry (a scalar
  of a one-dimensional array, a row of a two-dimensional one) and stored there,
  every number converted to the element type of \<open>a\<close>.
\<close>

fun setitem :: "'a caster \<Rightarrow> 'a ndarray \<Rightarrow> int \<Rightarrow> 'a list \<Rightarrow> error + 'a ndarray" where
  "setitem cast (Arr1 xs) idx v =
     (case normalize_index idx (length xs) of
        Inl e \<Rightarrow> Inl e
      | Inr j \<Rightarrow>
          (case v of
             [x] \<Rightarrow> Inr (Arr1 (xs[j := cast (Arr1 xs) v x]))
           | _ \<Rightarrow> Inl (ValueError ''setting an array element with a sequence'')))"
| "setitem cast (Arr2 c rows) idx v =
     (case normalize_index idx (length rows) of
        Inl e \<Rightarrow> Inl e
      | Inr j \<Rightarrow>
          (if length v = c then Inr (Arr2 c (rows[j := map (cast (Arr2 c rows) v) v]))
           else (case v of
                   [x] \<Rightarrow> Inr (Arr2 c (rows[j := replicate c (cast (Arr2 c rows) v x)]))
                 | _ \<Rightarrow> Inl (ValueError ''could not broadcast input array''))))"

subsection \<open>The state of a shape\<close>



record 'a pshape =
  u_vertices :: "'a ndarray"
  u_edges :: "int ndarray option"
  u_outline :: "int ndarray option"
  u_outline_vertices :: "'a ndarray option"
  attribs :: "string set"
  u_in_edit_mode :: bool
  u_vertex_cache :: "'a list list option"
  u_tri_required :: bool
  u_tri_vertices :: "'a ndarray option"
  u_tri_edges :: "int ndarray option"
  u_tri_faces :: "int ndarray option"
  tri_calls :: nat

type_synonym ('a, 'r) action = "'a pshape \<Rightarrow> (error + 'r) \<times> 'a pshape"

subsection \<open>\<^verbatim>\<open>kind\<close>\<close>

datatype kind_t = Point | Path | Poly

definition kind :: "'a pshape \<Rightarrow> kind_t" where
  "kind s =
     (if ''point'' \<in> attribs s then Point
      else if ''path'' \<in> attribs s then Path
      else Poly)"

subsection \<open>\<^verbatim>\<open>_sanitize_vertex_list\<close>\<close>

text \<open>
  The loop over the vertices, with the list \<^verbatim>\<open>sanitized\<close> as accumulator. The
  first vertex whose length is above \<open>max tdim sdim\<close> or below \<open>min tdim sdim\<close>
  raises.
\<close>

fun sanitize_loop :: "nat \<Rightarrow> nat \<Rightarrow> 'a::zero list list \<Rightarrow> 'a list list \<Rightarrow> error + 'a list list" where
  "sanitize_loop tdim sdim [] sanitized = Inr sanitized"
| "sanitize_loop tdim sdim (v # vs) sanitized =
     (if length v > max tdim sdim \<or> length v < min tdim sdim
      then Inl (ValueError ''unexpected vertex dimension'')
      else if tdim > sdim
        then sanitize_loop tdim sdim vs (sanitized @ [v @ replicate (tdim - sdim) 0])
      else if tdim < sdim
        then sanitize_loop tdim sdim vs (sanitized @ [take tdim v])
      else sanitize_loop tdim sdim vs (sanitized @ [v]))"

definition sanitize_vertex_list :: "'a::zero list list \<Rightarrow> nat \<Rightarrow> nat \<Rightarrow> error + 'a ndarray" where
  "sanitize_vertex_list vertices tdim sdim =
     (case sanitize_loop tdim sdim vertices [] of
        Inl e \<Rightarrow> Inl e
      | Inr sanitized \<Rightarrow> np_array sanitized)"

subsection \<open>The property \<^verbatim>\<open>vertices\<close>\<close>

definition vertices :: "('a, 'a ndarray) action" where
  "vertices s = (Inr (u_vertices s), s)"

text \<open>
  The setter calls the sanitizer with its default arguments, \<^verbatim>\<open>tdim=2\<close> and
  \<^verbatim>\<open>sdim=3\<close>. It resets the three triangulation fields and leaves \<^verbatim>\<open>_edges\<close>
  and \<^verbatim>\<open>_outline\<close> as they are.
\<close>

definition vertices_setter :: "'a::zero list list \<Rightarrow> ('a, unit) action" where
  "vertices_setter new_vertices s =
     (let n = length new_vertices in
      case sanitize_vertex_list new_vertices 2 3 of
        Inl e \<Rightarrow> (Inl e, s)
      | Inr a \<Rightarrow>
          (let s1 = s\<lparr>u_vertices := a\<rparr> in
           case hstack (u_vertices s1) (zeros_col n) of
             Inl e \<Rightarrow> (Inl e, s1)
           | Inr ov \<Rightarrow>
               (Inr (), s1\<lparr>u_outline_vertices := Some ov,
                           u_tri_vertices := None,
                           u_tri_edges := None,
                           u_tri_faces := None\<rparr>)))"

subsection \<open>The constructor\<close>

text \<open>
  \<open>init vs as\<close> is \<^verbatim>\<open>PShape(vertices=vs, attribs=...)\<close>, where \<open>as\<close> is the
  set of words \<^verbatim>\<open>set(attribs.lower().split())\<close>. The setter is called only for a
  non-empty vertex list.
\<close>

definition init :: "'a::zero list list \<Rightarrow> string set \<Rightarrow> (error + unit) \<times> 'a pshape" where
  "init vs as =
     (let s0 = \<lparr>u_vertices = Arr1 [],
                u_edges = None,
                u_outline = None,
                u_outline_vertices = None,
                attribs = as,
                u_in_edit_mode = False,
                u_vertex_cache = None,
                u_tri_required = (\<not> ''point'' \<in> as \<and> \<not> ''path'' \<in> as),
                u_tri_vertices = None,
                u_tri_edges = None,
                u_tri_faces = None,
                tri_calls = 0\<rparr>
      in if length vs > 0 then vertices_setter vs s0 else (Inr (), s0))"

subsection \<open>Edges\<close>

definition compute_poly_edges :: "'a pshape \<Rightarrow> error + int ndarray" where
  "compute_poly_edges s =
     (case unpack2 (shape (u_vertices s)) of
        Inl e \<Rightarrow> Inl e
      | Inr (n, _) \<Rightarrow>
          Inr (vstack_transpose (arange (int n))
                 (map (\<lambda>i. (i + 1) mod int n) (arange (int n)))))"

definition compute_outline_edges :: "'a pshape \<Rightarrow> error + int ndarray" where
  "compute_outline_edges s =
     (case unpack2 (shape (u_vertices s)) of
        Inl e \<Rightarrow> Inl e
      | Inr (n, _) \<Rightarrow>
          Inr (vstack_transpose (arange (int n - 1))
                 (map (\<lambda>i. (i + 1) mod int n) (arange (int n - 1)))))"

text \<open>
  The property \<^verbatim>\<open>edges\<close>. A point shape answers with a fresh empty array and
  touches nothing. Otherwise, when \<^verbatim>\<open>_edges\<close> is \<^verbatim>\<open>None\<close>, the shape of the
  vertex array is unpacked, \<^verbatim>\<open>_edges\<close> is computed and stored, then \<^verbatim>\<open>_outline\<close>.
\<close>

definition edges :: "('a, int ndarray option) action" where
  "edges s =
     (if ''point'' \<in> attribs s then (Inr (Some (Arr1 [])), s)
      else if u_edges s = None then
        (case unpack2 (shape (u_vertices s)) of
           Inl e \<Rightarrow> (Inl e, s)
         | Inr (n, _) \<Rightarrow>
             (case (if ''point'' \<in> attribs s then Inr (Arr1 [])
                    else if ''path'' \<in> attribs s then compute_outline_edges s
                    else compute_poly_edges s) of
                Inl e \<Rightarrow> (Inl e, s)
              | Inr es \<Rightarrow>
                  (let s1 = s\<lparr>u_edges := Some es\<rparr> in
                   if ''open'' \<in> attribs s1 then
                     (case compute_outline_edges s1 of
                        Inl e \<Rightarrow> (Inl e, s1)
                      | Inr ol \<Rightarrow>
                          (let s2 = s1\<lparr>u_outline := Some ol\<rparr>
                           in (Inr (u_edges s2), s2)))
                   else
                     (let s2 = s1\<lparr>u_outline := u_edges s1\<rparr>
                      in (Inr (u_edges s2), s2)))))
      else (Inr (u_edges s), s))"

subsection \<open>Triangulation\<close>


subsection \<open>The draw accessors\<close>





definition draw_outline_edges :: "('a, int ndarray option) action" where
  "draw_outline_edges s =
     (if ''open'' \<in> attribs s then (Inr (u_outline s), s)
      else (Inr (u_edges s), s))"

subsection \<open>Editing\<close>

text \<open>Two statements in sequence: the second runs if the first does not raise.\<close>

definition then_do :: "('a, unit) action \<Rightarrow> ('a, 'r) action \<Rightarrow> ('a, 'r) action" where
  "then_do m1 m2 s =
     (case m1 s of
        (Inl e, s1) \<Rightarrow> (Inl e, s1)
      | (Inr _, s1) \<Rightarrow> m2 s1)"

text \<open>
  \<^verbatim>\<open>edit\<close> is a generator wrapped by \<^verbatim>\<open>contextlib.contextmanager\<close>, with no
  \<^verbatim>\<open>try\<close> around its \<^verbatim>\<open>yield\<close>. Entering the \<^verbatim>\<open>with\<close> statement runs the
  generator up to the \<^verbatim>\<open>yield\<close> (\<open>edit_enter\<close>). When the body of the statement
  ends normally the generator is resumed and runs the statements after the
  \<^verbatim>\<open>yield\<close> (\<open>edit_exit\<close>). When the body raises, the exception is thrown into
  the generator at the \<^verbatim>\<open>yield\<close>; nothing catches it there, so the statements
  after the \<^verbatim>\<open>yield\<close> are not run and the exception leaves the \<^verbatim>\<open>with\<close>
  statement. \<open>edit reset body\<close> is \<^verbatim>\<open>with shape.edit(reset): body\<close>.
\<close>

definition edit_enter :: "bool \<Rightarrow> ('a, unit) action" where
  "edit_enter reset s =
     (if u_in_edit_mode s then (Inl (ValueError ''Shape is being edited already''), s)
      else
        (let s1 = s\<lparr>u_in_edit_mode := True\<rparr>;
             s2 = (if reset then s1\<lparr>u_vertices := Arr1 []\<rparr> else s1)
         in (Inr (), s2\<lparr>u_vertex_cache := Some []\<rparr>)))"

definition edit_exit :: "('a::zero, unit) action" where
  "edit_exit s =
     (case u_vertex_cache s of
        None \<Rightarrow> (Inl TypeError, s)
      | Some cache \<Rightarrow>
          (case vertices_setter cache s of
             (Inl e, s1) \<Rightarrow> (Inl e, s1)
           | (Inr _, s1) \<Rightarrow> (Inr (), s1\<lparr>u_in_edit_mode := False, u_edges := None\<rparr>)))"

definition edit :: "bool \<Rightarrow> ('a::zero, unit) action \<Rightarrow> ('a, unit) action" where
  "edit reset body s =
     (case edit_enter reset s of
        (Inl e, s1) \<Rightarrow> (Inl e, s1)
      | (Inr _, s1) \<Rightarrow>
          (case body s1 of
             (Inl e, s2) \<Rightarrow> (Inl e, s2)
           | (Inr _, s2) \<Rightarrow> edit_exit s2))"

text \<open>The decorator \<^verbatim>\<open>_ensure_editable\<close>, with the name of the decorated method.\<close>

definition ensure_editable :: "string \<Rightarrow> ('a, 'r) action \<Rightarrow> ('a, 'r) action" where
  "ensure_editable name func instance =
     (if \<not> u_in_edit_mode instance
      then (Inl (ValueError (name @ '' only works in edit mode'')), instance)
      else func instance)"

definition add_vertex :: "'a list \<Rightarrow> ('a, unit) action" where
  "add_vertex vertex =
     ensure_editable ''add_vertex''
       (\<lambda>s. case u_vertex_cache s of
              None \<Rightarrow> (Inl AttributeError, s)
            | Some cache \<Rightarrow> (Inr (), s\<lparr>u_vertex_cache := Some (cache @ [vertex])\<rparr>))"

text \<open>
  \<^verbatim>\<open>update_vertex\<close> is not decorated and does not read \<^verbatim>\<open>_in_edit_mode\<close>. Its
  first argument is the conversion that the assignment into the vertex array makes.
\<close>

definition update_vertex :: "'a caster \<Rightarrow> int \<Rightarrow> 'a list \<Rightarrow> ('a, unit) action" where
  "update_vertex cast idx vertex s =
     (if length vertex \<noteq> 2 then (Inl (ValueError ''Wrong vertex dimension''), s)
      else
        (case setitem cast (u_vertices s) idx vertex of
           Inl e \<Rightarrow> (Inl e, s)
         | Inr a \<Rightarrow>
             (Inr (), s\<lparr>u_vertices := a,
                        u_tri_vertices := None,
                        u_tri_edges := None,
                        u_tri_faces := None,
                        u_edges := None\<rparr>)))"

subsection \<open>The closed ring of the specification\<close>

text \<open>
  The edge set the specification names for a polygon of \<open>n\<close> vertices: the \<open>n\<close>
  index pairs \<open>(i, (i + 1) mod n)\<close> for \<open>i\<close> from \<open>0\<close> to \<open>n - 1\<close>, as an array of
  shape \<open>(n, 2)\<close>. It is written from the specification, to be compared with what
  \<open>edges\<close> computes.
\<close>

definition ring_edges :: "nat \<Rightarrow> int ndarray" where
  "ring_edges n = Arr2 2 (map (\<lambda>i. [int i, (int i + 1) mod int n]) [0 ..< n])"

subsection \<open>A triangulation service and a conversion for examples\<close>



text \<open>
  The conversion in the examples, where small Python integers are written into an
  array built from small Python integers (element type int64): the numbers are
  stored as they are.
\<close>

definition no_cast :: "int caster" where
  "no_cast a v x = x"

subsection \<open>Reads that find the triangulation cached\<close>


section \<open>Properties\<close>

subsection \<open>The sanitizer and the setter\<close>

lemma sanitize_loop_default:
  "sanitize_loop 2 3 vs acc =
     (if list_all (\<lambda>v. length v = 2 \<or> length v = 3) vs
      then Inr (acc @ map (take 2) vs)
      else Inl (ValueError ''unexpected vertex dimension''))"
  by (induction vs arbitrary: acc) auto

text \<open>
  When the target dimension is at most the source dimension, every row the loop
  produces has the target dimension, so \<open>np_array\<close> is never given ragged rows.
\<close>

lemma sanitize_rows_length:
  "tdim \<le> sdim \<Longrightarrow> sanitize_loop tdim sdim vs acc = Inr rows \<Longrightarrow>
   list_all (\<lambda>r. length r = tdim) acc \<Longrightarrow> list_all (\<lambda>r. length r = tdim) rows"
  by (induction vs arbitrary: acc) (auto split: if_splits)

lemma np_array_uniform:
  "rows \<noteq> [] \<Longrightarrow> list_all (\<lambda>r. length r = c) rows \<Longrightarrow> np_array rows = Inr (Arr2 c rows)"
  by (cases rows) (auto simp: list_all_iff)

lemma take2_rows:
  "list_all (\<lambda>v. length v = 2 \<or> length v = 3) vs \<Longrightarrow>
   list_all (\<lambda>r. length r = 2) (map (take 2) vs)"
  by (induction vs) auto

lemma sanitize_default_array:
  "sanitize_vertex_list vs 2 3 =
     (if list_all (\<lambda>v. length v = 2 \<or> length v = 3) vs
      then Inr (if vs = [] then Arr1 [] else Arr2 2 (map (take 2) vs))
      else Inl (ValueError ''unexpected vertex dimension''))"
proof (cases "list_all (\<lambda>v. length v = 2 \<or> length v = 3) vs")
  case False
  then show ?thesis by (simp add: sanitize_vertex_list_def sanitize_loop_default)
next
  case True
  show ?thesis
  proof (cases "vs = []")
    case True
    then show ?thesis by (simp add: sanitize_vertex_list_def)
  next
    case False
    then have "map (take 2) vs \<noteq> []" by simp
    then have "np_array (map (take 2) vs) = Inr (Arr2 2 (map (take 2) vs))"
      using take2_rows [OF True] by (rule np_array_uniform)
    with True False show ?thesis
      by (simp add: sanitize_vertex_list_def sanitize_loop_default)
  qed
qed

text \<open>
  Claim C3, as amended. With the arguments the class always passes (target dimension
  2, source dimension 3) the sanitizer accepts a sequence exactly when every point
  has 2 or 3 components: a point of length 2 is copied as it is, a point of length 3
  loses its third component. A sequence with a point of any other length (0, 1, 4
  or more) raises the dimension error; nothing is padded.
\<close>

theorem sanitize_vertex_list_default:
  "sanitize_vertex_list vs 2 3 =
     (if \<forall>v \<in> set vs. length v = 2 \<or> length v = 3
      then Inr (if vs = [] then Arr1 []
                else Arr2 2 (map (\<lambda>v. if length v = 2 then v else take 2 v) vs))
      else Inl (ValueError ''unexpected vertex dimension''))"
proof -
  have "map (\<lambda>v. if length v = 2 then v else take 2 v) vs = map (take 2) vs"
    by (rule map_cong) auto
  then show ?thesis
    by (simp add: sanitize_default_array list_all_iff)
qed

theorem sanitize_vertex_list_default_witness:
  "sanitize_vertex_list [[1, 2], [3, 4, 5 :: int]] 2 3 = Inr (Arr2 2 [[1, 2], [3, 4]])
   \<and> sanitize_vertex_list [[1, 2], [7 :: int]] 2 3 = Inl (ValueError ''unexpected vertex dimension'')"
  using sanitize_vertex_list_default [of "[[1, 2], [3, 4, 5 :: int]]"]
        sanitize_vertex_list_default [of "[[1, 2], [7 :: int]]"]
  by simp

text \<open>
  Claim C3 as stated fails: a one-component point is refused, not padded, and so
  is a four-component point, which the claim would truncate. When the source
  dimension is below the target (the only setting that pads) a point of length 2 is
  padded too, so it is not copied as it is.
\<close>

theorem sanitize_short_point_counterexample:
  "sanitize_vertex_list [[5 :: int]] 2 3 = Inl (ValueError ''unexpected vertex dimension'')
   \<and> sanitize_vertex_list [[1, 2, 3, 4 :: int]] 2 3 = Inl (ValueError ''unexpected vertex dimension'')
   \<and> sanitize_loop 2 1 [[5], [1, 2 :: int]] [] = Inr [[5, 0], [1, 2, 0]]"
  by (simp add: sanitize_vertex_list_def)

lemma zip_replicate_same:
  "zip rows (replicate (length rows) x) = map (\<lambda>r. (r, x)) rows"
  by (induction rows) auto

lemma hstack_zeros_col:
  "hstack (Arr2 c rows) (zeros_col (length rows)) = Inr (Arr2 (c + 1) (map (\<lambda>r. r @ [0]) rows))"
  by (simp add: zeros_col_def zip_replicate_same)

lemma vertices_setter_ok:
  assumes "vs \<noteq> []" and "list_all (\<lambda>v. length v = 2 \<or> length v = 3) vs"
  shows "vertices_setter vs s =
           (Inr (), s\<lparr>u_vertices := Arr2 2 (map (take 2) vs),
                      u_outline_vertices := Some (Arr2 3 (map (\<lambda>r. r @ [0]) (map (take 2) vs))),
                      u_tri_vertices := None,
                      u_tri_edges := None,
                      u_tri_faces := None\<rparr>)"
  using assms hstack_zeros_col [of 2 "map (take 2) vs"]
  by (simp add: vertices_setter_def sanitize_default_array)

lemma vertices_setter_store:
  assumes "list_all (\<lambda>v. length v = 2 \<or> length v = 3) vs"
  shows "u_vertices (snd (vertices_setter vs s)) =
           (if vs = [] then Arr1 [] else Arr2 2 (map (take 2) vs))"
proof (cases "vs = []")
  case True
  then show ?thesis
    by (simp add: vertices_setter_def sanitize_vertex_list_def zeros_col_def)
next
  case False
  with vertices_setter_ok [OF False assms, of s] show ?thesis by simp
qed

text \<open>
  Claim C9, as amended. For every non-empty sequence \<open>V\<close> of points of exactly two
  components, the setter returns without an exception, and the property
  \<^verbatim>\<open>vertices\<close> then reads the array \<^verbatim>\<open>np.array(V)\<close>: the points of \<open>V\<close> in the
  same order, in an array of \<open>len V\<close> rows and two columns, holding the numbers as
  \<^verbatim>\<open>np.array\<close> stores them.
\<close>

theorem vertices_setter_roundtrip:
  assumes "V \<noteq> []" and "\<forall>v \<in> set V. length v = 2"
  shows "fst (vertices_setter V s) = Inr ()
         \<and> fst (vertices (snd (vertices_setter V s))) = np_array V
         \<and> (\<exists>a. np_array V = Inr a \<and> shape a = [length V, 2])"
proof -
  from assms(2) have ok: "list_all (\<lambda>v. length v = 2 \<or> length v = 3) V"
    and two: "list_all (\<lambda>v. length v = 2) V"
    by (simp_all add: list_all_iff)
  from assms(2) have same: "map (take 2) V = V"
    by (induction V) auto
  have a: "np_array V = Inr (Arr2 2 V)"
    using assms(1) two by (rule np_array_uniform)
  from vertices_setter_ok [OF assms(1) ok, of s] same a
  show ?thesis by (simp add: vertices_def)
qed

theorem vertices_setter_roundtrip_witness:
  "[[0, 0], [10, 0], [10, 10 :: int]] \<noteq> []
   \<and> list_all (\<lambda>v. length v = 2) [[0, 0], [10, 0], [10, 10 :: int]]
   \<and> fst (vertices_setter [[0, 0], [10, 0], [10, 10 :: int]] (snd (init [] {''closed''}))) = Inr ()
   \<and> fst (vertices (snd (vertices_setter [[0, 0], [10, 0], [10, 10 :: int]] (snd (init [] {''closed''})))))
       = Inr (Arr2 2 [[0, 0], [10, 0], [10, 10]])"
  using vertices_setter_roundtrip [of "[[0, 0], [10, 0], [10, 10 :: int]]" "snd (init [] {''closed''})"]
  by simp

text \<open>
  Claim C9 as stated fails for the empty sequence: the sanitizer returns the array
  of shape \<open>(0,)\<close>, which \<^verbatim>\<open>np.hstack\<close> cannot join with \<^verbatim>\<open>np.zeros((0, 1))\<close>, so
  the assignment raises.
\<close>

theorem vertices_setter_empty_counterexample:
  "fst (vertices_setter ([] :: int list list) (snd (init [[1, 1]] {''closed''})))
     = Inl (ValueError ''all the input arrays must have same number of dimensions'')
   \<and> fst (vertices_setter ([] :: int list list) (snd (init [] {''closed''})))
     = Inl (ValueError ''all the input arrays must have same number of dimensions'')"
  by (simp add: init_def vertices_setter_def sanitize_vertex_list_def zeros_col_def)

subsection \<open>Updating one vertex\<close>

text \<open>
  Claim C7. For a vertex store of \<open>n\<close> rows and an index \<open>idx\<close> from \<open>0\<close> to
  \<open>n - 1\<close>: \<^verbatim>\<open>update_vertex\<close> with a point of three components raises the dimension
  error and leaves the shape as it was; with a point of two components it returns,
  the row at \<open>idx\<close> holds the point (its two numbers as the assignment converts
  them to the element type of the store), and every other row of the store is
  unchanged. This holds for every conversion the assignment may make.
\<close>

theorem update_vertex_frame:
  assumes "u_vertices s = Arr2 2 rows" and "0 \<le> idx" and "idx < int (length rows)"
  shows "(length p = 3 \<longrightarrow>
            update_vertex cast idx p s = (Inl (ValueError ''Wrong vertex dimension''), s))
         \<and> (length p = 2 \<longrightarrow>
              fst (update_vertex cast idx p s) = Inr ()
              \<and> u_vertices (snd (update_vertex cast idx p s))
                    = Arr2 2 (rows[nat idx := map (cast (Arr2 2 rows) p) p])
              \<and> length (rows[nat idx := map (cast (Arr2 2 rows) p) p]) = length rows
              \<and> rows[nat idx := map (cast (Arr2 2 rows) p) p] ! nat idx
                    = map (cast (Arr2 2 rows) p) p
              \<and> (\<forall>j < length rows. j \<noteq> nat idx \<longrightarrow>
                    rows[nat idx := map (cast (Arr2 2 rows) p) p] ! j = rows ! j))"
  using assms by (simp add: update_vertex_def normalize_index_def)

theorem update_vertex_frame_witness:
  "u_vertices (snd (init [[0, 0], [10, 0], [10, 10 :: int]] {''closed''})) = Arr2 2 [[0, 0], [10, 0], [10, 10]]
   \<and> update_vertex no_cast 1 [7, 8, 9] (snd (init [[0, 0], [10, 0], [10, 10 :: int]] {''closed''}))
       = (Inl (ValueError ''Wrong vertex dimension''), snd (init [[0, 0], [10, 0], [10, 10 :: int]] {''closed''}))
   \<and> fst (update_vertex no_cast 1 [7, 8] (snd (init [[0, 0], [10, 0], [10, 10 :: int]] {''closed''}))) = Inr ()
   \<and> u_vertices (snd (update_vertex no_cast 1 [7, 8] (snd (init [[0, 0], [10, 0], [10, 10 :: int]] {''closed''}))))
       = Arr2 2 [[0, 0], [7, 8], [10, 10]]"
proof -
  have v: "u_vertices (snd (init [[0, 0], [10, 0], [10, 10 :: int]] {''closed''})) = Arr2 2 [[0, 0], [10, 0], [10, 10]]"
    by (simp add: init_def vertices_setter_def sanitize_vertex_list_def zeros_col_def)
  have "0 \<le> (1 :: int)" and "(1 :: int) < int (length [[0, 0], [10, 0], [10, 10 :: int]])"
    by simp_all
  from update_vertex_frame [OF v this, where p = "[7, 8, 9]" and cast = no_cast]
       update_vertex_frame [OF v this, where p = "[7, 8]" and cast = no_cast]
  have e: "update_vertex no_cast 1 [7, 8, 9] (snd (init [[0, 0], [10, 0], [10, 10 :: int]] {''closed''}))
       = (Inl (ValueError ''Wrong vertex dimension''), snd (init [[0, 0], [10, 0], [10, 10 :: int]] {''closed''}))"
    and r: "fst (update_vertex no_cast 1 [7, 8] (snd (init [[0, 0], [10, 0], [10, 10 :: int]] {''closed''}))) = Inr ()"
    by simp_all
  have u: "u_vertices (snd (update_vertex no_cast 1 [7, 8] (snd (init [[0, 0], [10, 0], [10, 10 :: int]] {''closed''}))))
       = Arr2 2 [[0, 0], [7, 8], [10, 10]]"
    by (simp add: update_vertex_def v normalize_index_def no_cast_def)
  from v e r u show ?thesis by simp
qed

subsection \<open>Edges\<close>

lemma zip_map_map: "zip (map f xs) (map g xs) = map (\<lambda>x. (f x, g x)) xs"
  by (induction xs) auto

lemma compute_poly_edges_ring:
  "u_vertices s = Arr2 c rows \<Longrightarrow> compute_poly_edges s = Inr (ring_edges (length rows))"
  by (simp add: compute_poly_edges_def ring_edges_def vstack_transpose_def arange_def
        zip_map_map comp_def)

lemma compute_outline_edges_path:
  "u_vertices s = Arr2 c rows \<Longrightarrow>
   compute_outline_edges s =
     Inr (Arr2 2 (map (\<lambda>i. [int i, (int i + 1) mod int (length rows)]) [0 ..< length rows - 1]))"
  by (simp add: compute_outline_edges_def vstack_transpose_def arange_def
        zip_map_map comp_def nat_diff_distrib')

lemma edges_poly_fresh:
  assumes "u_vertices s = Arr2 c rows" and "u_edges s = None"
    and "''point'' \<notin> attribs s" and "''path'' \<notin> attribs s"
  shows "fst (edges s) = Inr (Some (ring_edges (length rows)))"
proof -
  have 1: "compute_poly_edges s = Inr (ring_edges (length rows))"
    using assms(1) by (rule compute_poly_edges_ring)
  have 2: "compute_outline_edges (s\<lparr>u_edges := Some (ring_edges (length rows))\<rparr>) =
     Inr (Arr2 2 (map (\<lambda>i. [int i, (int i + 1) mod int (length rows)]) [0 ..< length rows - 1]))"
    using assms(1) by (intro compute_outline_edges_path) simp
  show ?thesis
    using assms 1 2 by (simp add: edges_def Let_def)
qed

lemma init_ok:
  assumes "V \<noteq> []" and "list_all (\<lambda>v. length v = 2 \<or> length v = 3) V"
  shows "init V as =
           (Inr (), \<lparr>u_vertices = Arr2 2 (map (take 2) V),
                u_edges = None,
                u_outline = None,
                u_outline_vertices = Some (Arr2 3 (map (\<lambda>r. r @ [0]) (map (take 2) V))),
                attribs = as,
                u_in_edit_mode = False,
                u_vertex_cache = None,
                u_tri_required = (\<not> ''point'' \<in> as \<and> \<not> ''path'' \<in> as),
                u_tri_vertices = None,
                u_tri_edges = None,
                u_tri_faces = None,
                tri_calls = 0\<rparr>)"
  using assms by (simp add: init_def vertices_setter_ok)

text \<open>
  Where the edge cache is empty the ring is computed from the store: for a vertex
  sequence \<open>V\<close> of at least three points and attributes with neither \<^verbatim>\<open>point\<close>
  nor \<^verbatim>\<open>path\<close>, reading \<^verbatim>\<open>edges\<close> gives the closed ring of \<open>len V\<close> pairs
  \<open>(i, (i + 1) mod len V)\<close> on every shape whose store is \<open>V\<close> and whose edge
  cache is empty, and on the shape just constructed from \<open>V\<close>.
\<close>

lemma polygon_edges_ring:
  assumes "3 \<le> length V" and "''point'' \<notin> as" and "''path'' \<notin> as"
  shows "(\<forall>s. u_vertices s = Arr2 2 V \<and> attribs s = as \<and> u_edges s = None \<longrightarrow>
              fst (edges s) = Inr (Some (ring_edges (length V))))
         \<and> ((\<forall>v \<in> set V. length v = 2 \<or> length v = 3) \<longrightarrow>
              fst (init V as) = Inr ()
              \<and> fst (edges (snd (init V as))) = Inr (Some (ring_edges (length V))))
         \<and> (\<exists>rows. ring_edges (length V) = Arr2 2 rows \<and> length rows = length V
              \<and> (\<forall>i < length V. rows ! i = [int i, (int i + 1) mod int (length V)]))"
proof (intro conjI allI impI)
  fix s :: "'a pshape"
  assume "u_vertices s = Arr2 2 V \<and> attribs s = as \<and> u_edges s = None"
  with assms show "fst (edges s) = Inr (Some (ring_edges (length V)))"
    using edges_poly_fresh [of s 2 V] by simp
next
  assume "\<forall>v \<in> set V. length v = 2 \<or> length v = 3"
  then have ok: "list_all (\<lambda>v. length v = 2 \<or> length v = 3) V" by (simp add: list_all_iff)
  from assms have ne: "V \<noteq> []" by auto
  show "fst (init V as) = Inr ()" by (simp add: init_ok [OF ne ok])
  show "fst (edges (snd (init V as))) = Inr (Some (ring_edges (length V)))"
    using assms edges_poly_fresh [of "snd (init V as)" 2 "map (take 2) V"]
    by (simp add: init_ok [OF ne ok])
next
  show "\<exists>rows. ring_edges (length V) = Arr2 2 rows \<and> length rows = length V
              \<and> (\<forall>i < length V. rows ! i = [int i, (int i + 1) mod int (length V)])"
    by (simp add: ring_edges_def)
qed

lemma polygon_edges_ring_square:
  "3 \<le> length [[0, 0], [10, 0], [10, 10], [0, 10 :: int]]
   \<and> ''point'' \<notin> {''closed''} \<and> ''path'' \<notin> {''closed''}
   \<and> fst (init [[0, 0], [10, 0], [10, 10], [0, 10 :: int]] {''closed''}) = Inr ()
   \<and> fst (edges (snd (init [[0, 0], [10, 0], [10, 10], [0, 10 :: int]] {''closed''})))
       = Inr (Some (Arr2 2 [[0, 1], [1, 2], [2, 3], [3, 0]]))"
proof -
  have r: "ring_edges (length [[0, 0], [10, 0], [10, 10], [0, 10 :: int]])
             = Arr2 2 [[0, 1], [1, 2], [2, 3], [3, 0]]"
    by (simp add: ring_edges_def upt_rec)
  have "3 \<le> length [[0, 0], [10, 0], [10, 10], [0, 10 :: int]]" by simp
  from polygon_edges_ring [OF this, of "{''closed''}"]
  show ?thesis unfolding r by simp
qed

text \<open>
  Claim C8 fails where the setter has replaced the vertices after \<^verbatim>\<open>edges\<close> was
  read. A square is constructed with the attribute \<^verbatim>\<open>closed\<close> and \<^verbatim>\<open>edges\<close> is
  read (four pairs); five vertices are assigned through the setter, which returns
  and stores them; the shape is still a polygon, and the next read of \<^verbatim>\<open>edges\<close>
  returns the four pairs of the square, not the ring of five pairs that the claim
  names. The setter does not reset \<^verbatim>\<open>_edges\<close>, which \<^verbatim>\<open>update_vertex\<close> and
  the commit of an edit session do.
\<close>

theorem polygon_edges_stale_after_setter:
  "fst (edges (snd (init [[0, 0], [10, 0], [10, 10], [0, 10 :: int]] {''closed''})))
     = Inr (Some (Arr2 2 [[0, 1], [1, 2], [2, 3], [3, 0]]))
   \<and> fst (vertices_setter [[0, 0], [10, 0], [15, 5], [10, 10], [0, 10]]
        (snd (edges (snd (init [[0, 0], [10, 0], [10, 10], [0, 10 :: int]] {''closed''}))))) = Inr ()
   \<and> u_vertices (snd (vertices_setter [[0, 0], [10, 0], [15, 5], [10, 10], [0, 10]]
        (snd (edges (snd (init [[0, 0], [10, 0], [10, 10], [0, 10 :: int]] {''closed''}))))))
       = Arr2 2 [[0, 0], [10, 0], [15, 5], [10, 10], [0, 10]]
   \<and> kind (snd (vertices_setter [[0, 0], [10, 0], [15, 5], [10, 10], [0, 10]]
        (snd (edges (snd (init [[0, 0], [10, 0], [10, 10], [0, 10 :: int]] {''closed''})))))) = Poly
   \<and> fst (edges (snd (vertices_setter [[0, 0], [10, 0], [15, 5], [10, 10], [0, 10]]
        (snd (edges (snd (init [[0, 0], [10, 0], [10, 10], [0, 10 :: int]] {''closed''})))))))
       = Inr (Some (Arr2 2 [[0, 1], [1, 2], [2, 3], [3, 0]]))
   \<and> ring_edges 5 = Arr2 2 [[0, 1], [1, 2], [2, 3], [3, 4], [4, 0]]"
  by (simp add: init_def vertices_setter_def sanitize_vertex_list_def zeros_col_def
        edges_def compute_poly_edges_def compute_outline_edges_def kind_def
        vstack_transpose_def arange_def Let_def upt_rec ring_edges_def)

text \<open>
  Claim C4, as amended. Reading \<^verbatim>\<open>edges\<close> on a point shape returns an empty
  edge set without an exception and without touching the shape, whatever the vertex
  store holds (also no vertex, or one). With exactly one vertex and an empty edge
  cache, a shape that is not a point shape gets, without an exception, the empty
  edge set (shape \<open>(0, 2)\<close>) when it is a path and the single edge \<open>(0, 0)\<close> from
  the vertex to itself when it is a polygon.
\<close>

theorem edges_degenerate:
  "(''point'' \<in> attribs s \<longrightarrow> edges s = (Inr (Some (Arr1 [])), s))
   \<and> (''point'' \<notin> attribs s \<and> u_vertices s = Arr2 c [v] \<and> u_edges s = None \<longrightarrow>
        fst (edges s) = Inr (Some (if ''path'' \<in> attribs s then Arr2 2 [] else Arr2 2 [[0, 0]])))"
  by (simp add: edges_def compute_poly_edges_def compute_outline_edges_def
        vstack_transpose_def arange_def Let_def)

theorem edges_degenerate_witness:
  "''point'' \<in> attribs (snd (init ([] :: int list list) {''point''}))
   \<and> fst (edges (snd (init ([] :: int list list) {''point''}))) = Inr (Some (Arr1 []))
   \<and> fst (edges (snd (init [[1, 1 :: int]] {''point''}))) = Inr (Some (Arr1 []))
   \<and> u_vertices (snd (init [[1, 1 :: int]] {''path''})) = Arr2 2 [[1, 1]]
   \<and> fst (edges (snd (init [[1, 1 :: int]] {''path''}))) = Inr (Some (Arr2 2 []))
   \<and> fst (edges (snd (init [[1, 1 :: int]] {''closed''}))) = Inr (Some (Arr2 2 [[0, 0]]))"
proof -
  have a: "init ([] :: int list list) {''point''} = (Inr (), snd (init ([] :: int list list) {''point''}))"
    and b: "attribs (snd (init ([] :: int list list) {''point''})) = {''point''}"
    by (simp_all add: init_def)
  have i: "\<And>as. init [[1, 1 :: int]] as =
      (Inr (), \<lparr>u_vertices = Arr2 2 [[1, 1]], u_edges = None, u_outline = None,
         u_outline_vertices = Some (Arr2 3 [[1, 1, 0]]), attribs = as,
         u_in_edit_mode = False, u_vertex_cache = None,
         u_tri_required = (\<not> ''point'' \<in> as \<and> \<not> ''path'' \<in> as),
         u_tri_vertices = None, u_tri_edges = None, u_tri_faces = None, tri_calls = 0\<rparr>)"
    using init_ok [of "[[1, 1 :: int]]"] by simp
  show ?thesis
    using edges_degenerate [of "snd (init ([] :: int list list) {''point''})"]
      edges_degenerate [of "snd (init [[1, 1 :: int]] {''point''})"]
      edges_degenerate [of "snd (init [[1, 1 :: int]] {''path''})" 2 "[1, 1]"]
      edges_degenerate [of "snd (init [[1, 1 :: int]] {''closed''})" 2 "[1, 1]"]
    by (simp add: b i)
qed

text \<open>
  Claim C4 as stated fails: a polygon of one vertex has the edge \<open>(0, 0)\<close>, not an
  empty edge set; and a polygon constructed with no vertex holds the array
  \<^verbatim>\<open>np.array([])\<close> of shape \<open>(0,)\<close>, which \<^verbatim>\<open>n, _ = self._vertices.shape\<close> cannot
  unpack, so the read raises.
\<close>

theorem edges_degenerate_counterexample:
  "fst (edges (snd (init [[1, 1 :: int]] {''closed''}))) = Inr (Some (Arr2 2 [[0, 0]]))
   \<and> fst (edges (snd (init ([] :: int list list) {''closed''})))
       = Inl (ValueError ''not enough values to unpack'')"
  by (simp add: init_def vertices_setter_def sanitize_vertex_list_def zeros_col_def
        edges_def compute_poly_edges_def compute_outline_edges_def
        vstack_transpose_def arange_def Let_def)

subsection \<open>Updating one vertex during an edit session\<close>

text \<open>
  Claim C6, as amended. \<^verbatim>\<open>update_vertex\<close> does not consult the edit state: its
  outcome and its effect on every other field are the same whether the edit flag
  is set or not. In particular, while an edit session is open a call with a point
  of two components and an index inside the store is applied to the store.
\<close>

theorem update_vertex_ignores_edit_mode:
  "update_vertex cast idx p (s\<lparr>u_in_edit_mode := b\<rparr>)
     = (fst (update_vertex cast idx p s), (snd (update_vertex cast idx p s))\<lparr>u_in_edit_mode := b\<rparr>)
   \<and> (u_in_edit_mode s \<and> length p = 2 \<and> u_vertices s = Arr2 2 rows
        \<and> 0 \<le> idx \<and> idx < int (length rows) \<longrightarrow>
      fst (update_vertex cast idx p s) = Inr ()
      \<and> u_vertices (snd (update_vertex cast idx p s)) = Arr2 2 (rows[nat idx := map (cast (Arr2 2 rows) p) p]))"
  by (simp add: update_vertex_def no_cast_def normalize_index_def split: sum.splits)

theorem update_vertex_ignores_edit_mode_witness:
  "u_in_edit_mode (snd (edit_enter False (snd (init [[0, 0], [10, 0], [10, 10 :: int]] {''closed''}))))
   \<and> u_vertices (snd (edit_enter False (snd (init [[0, 0], [10, 0], [10, 10 :: int]] {''closed''}))))
       = Arr2 2 [[0, 0], [10, 0], [10, 10]]
   \<and> fst (update_vertex no_cast 1 [5, 5]
        (snd (edit_enter False (snd (init [[0, 0], [10, 0], [10, 10 :: int]] {''closed''}))))) = Inr ()
   \<and> u_vertices (snd (update_vertex no_cast 1 [5, 5]
        (snd (edit_enter False (snd (init [[0, 0], [10, 0], [10, 10 :: int]] {''closed''}))))))
       = Arr2 2 [[0, 0], [5, 5], [10, 10]]"
proof -
  have e: "u_in_edit_mode (snd (edit_enter False (snd (init [[0, 0], [10, 0], [10, 10 :: int]] {''closed''}))))"
    and v: "u_vertices (snd (edit_enter False (snd (init [[0, 0], [10, 0], [10, 10 :: int]] {''closed''}))))
       = Arr2 2 [[0, 0], [10, 0], [10, 10]]"
    by (simp_all add: init_def vertices_setter_def sanitize_vertex_list_def zeros_col_def
        edit_enter_def Let_def)
  from update_vertex_ignores_edit_mode
        [where cast = no_cast and idx = 1 and p = "[5, 5]" and b = True
           and rows = "[[0, 0], [10, 0], [10, 10]]"
           and s = "snd (edit_enter False (snd (init [[0, 0], [10, 0], [10, 10 :: int]] {''closed''})))"] e v
  show ?thesis by (simp add: no_cast_def)
qed

text \<open>
  Claim C6 as stated fails: after \<^verbatim>\<open>edit(reset=False)\<close> has been entered on a
  triangle, \<^verbatim>\<open>update_vertex(0, (5, 5))\<close> returns and has replaced the first vertex.
\<close>

theorem update_vertex_in_edit_counterexample:
  "u_in_edit_mode (snd (edit_enter False (snd (init [[0, 0], [10, 0], [10, 10 :: int]] {''closed''}))))
   \<and> fst (update_vertex no_cast 0 [5, 5]
        (snd (edit_enter False (snd (init [[0, 0], [10, 0], [10, 10 :: int]] {''closed''}))))) = Inr ()
   \<and> u_vertices (snd (update_vertex no_cast 0 [5, 5]
        (snd (edit_enter False (snd (init [[0, 0], [10, 0], [10, 10 :: int]] {''closed''}))))))
       = Arr2 2 [[5, 5], [10, 0], [10, 10]]"
  by (simp add: init_def vertices_setter_def sanitize_vertex_list_def zeros_col_def
        edit_enter_def update_vertex_def no_cast_def normalize_index_def Let_def)

subsection \<open>The outline edges read for drawing\<close>

lemma update_vertex_attribs:
  "attribs (snd (update_vertex cast idx p s)) = attribs s"
  by (simp add: update_vertex_def no_cast_def split: sum.splits)

lemma update_vertex_edges_reset:
  "fst (update_vertex cast idx p s) = Inr () \<Longrightarrow> u_edges (snd (update_vertex cast idx p s)) = None"
  by (simp add: update_vertex_def no_cast_def split: sum.splits if_splits)

lemma vertices_setter_attribs:
  "attribs (snd (vertices_setter V s)) = attribs s"
  by (simp add: vertices_setter_def Let_def split: sum.splits)

lemma edit_exit_attribs:
  "attribs (snd (edit_exit s)) = attribs s"
proof (cases "u_vertex_cache s")
  case None
  then show ?thesis by (simp add: edit_exit_def)
next
  case (Some cache)
  obtain r s1 where rs: "vertices_setter cache s = (r, s1)" by (cases "vertices_setter cache s")
  with vertices_setter_attribs [of cache s] have "attribs s1 = attribs s" by simp
  with Some rs show ?thesis by (cases r) (simp_all add: edit_exit_def)
qed

lemma edit_exit_edges_reset:
  "fst (edit_exit s) = Inr () \<Longrightarrow> u_edges (snd (edit_exit s)) = None"
  by (auto simp add: edit_exit_def split: option.splits sum.splits prod.splits)

lemma init_edge_caches:
  "u_edges (snd (init V as)) = None \<and> u_outline (snd (init V as)) = None"
  by (simp add: init_def vertices_setter_def Let_def split: sum.splits)

text \<open>
  Claim C10, as amended. Reading \<^verbatim>\<open>_draw_outline_edges\<close> computes nothing and
  changes no field: it returns the cached outline when \<^verbatim>\<open>open\<close> is an attribute
  and the cached edges otherwise. On a shape just constructed it returns \<^verbatim>\<open>None\<close>.
  On a shape without the attribute \<^verbatim>\<open>open\<close> it returns \<^verbatim>\<open>None\<close> right after a
  successful \<^verbatim>\<open>update_vertex\<close> and right after the commit of an edit session.
\<close>

theorem draw_outline_edges_reads_cache:
  "draw_outline_edges s = (Inr (if ''open'' \<in> attribs s then u_outline s else u_edges s), s)
   \<and> fst (draw_outline_edges (snd (init V as))) = Inr None
   \<and> (''open'' \<notin> attribs s \<and> fst (update_vertex cast idx p s) = Inr () \<longrightarrow>
        fst (draw_outline_edges (snd (update_vertex cast idx p s))) = Inr None)
   \<and> (''open'' \<notin> attribs s \<and> fst (edit_exit s) = Inr () \<longrightarrow>
        fst (draw_outline_edges (snd (edit_exit s))) = Inr None)"
  by (simp add: draw_outline_edges_def init_edge_caches update_vertex_attribs
        update_vertex_edges_reset edit_exit_attribs edit_exit_edges_reset)

theorem draw_outline_edges_reads_cache_witness:
  "''open'' \<notin> attribs (snd (edges (snd (init [[0, 0], [10, 0], [10, 10 :: int]] {''closed''}))))
   \<and> fst (update_vertex no_cast 0 [5, 5]
        (snd (edges (snd (init [[0, 0], [10, 0], [10, 10 :: int]] {''closed''}))))) = Inr ()
   \<and> fst (draw_outline_edges (snd (edges (snd (init [[0, 0], [10, 0], [10, 10 :: int]] {''closed''})))))
       = Inr (Some (Arr2 2 [[0, 1], [1, 2], [2, 0]]))
   \<and> fst (draw_outline_edges (snd (update_vertex no_cast 0 [5, 5]
        (snd (edges (snd (init [[0, 0], [10, 0], [10, 10 :: int]] {''closed''}))))))) = Inr None
   \<and> fst (draw_outline_edges (snd (init [[0, 0], [10, 0], [10, 10 :: int]] {''closed''}))) = Inr None"
proof -
  have e: "edges (snd (init [[0, 0], [10, 0], [10, 10 :: int]] {''closed''})) =
      (Inr (Some (Arr2 2 [[0, 1], [1, 2], [2, 0]])),
       \<lparr>u_vertices = Arr2 2 [[0, 0], [10, 0], [10, 10]],
          u_edges = Some (Arr2 2 [[0, 1], [1, 2], [2, 0]]),
          u_outline = Some (Arr2 2 [[0, 1], [1, 2], [2, 0]]),
          u_outline_vertices = Some (Arr2 3 [[0, 0, 0], [10, 0, 0], [10, 10, 0]]),
          attribs = {''closed''}, u_in_edit_mode = False, u_vertex_cache = None,
          u_tri_required = True, u_tri_vertices = None, u_tri_edges = None,
          u_tri_faces = None, tri_calls = 0\<rparr>)"
    by (simp add: init_def vertices_setter_def sanitize_vertex_list_def zeros_col_def
        edges_def compute_poly_edges_def compute_outline_edges_def
        vstack_transpose_def arange_def Let_def upt_rec)
  have u: "fst (update_vertex no_cast 0 [5, 5]
        (snd (edges (snd (init [[0, 0], [10, 0], [10, 10 :: int]] {''closed''}))))) = Inr ()"
    unfolding e by (simp add: update_vertex_def no_cast_def normalize_index_def)
  from draw_outline_edges_reads_cache
        [where s = "snd (edges (snd (init [[0, 0], [10, 0], [10, 10 :: int]] {''closed''})))"
           and cast = no_cast and idx = 0 and p = "[5, 5]"
           and V = "[[0, 0], [10, 0], [10, 10 :: int]]"
           and as = "{''closed''}"] u
  show ?thesis by (simp add: e)
qed

text \<open>
  Claim C10 as stated fails for a shape with the attribute \<^verbatim>\<open>open\<close>:
  \<^verbatim>\<open>update_vertex\<close> resets \<^verbatim>\<open>_edges\<close> and leaves \<^verbatim>\<open>_outline\<close>, so with no read
  of \<^verbatim>\<open>edges\<close> after that invalidation the accessor returns the outline cached
  before it, not \<^verbatim>\<open>None\<close>.
\<close>

theorem draw_outline_edges_stale_counterexample:
  "fst (update_vertex no_cast 0 [5, 5]
     (snd (edges (snd (init [[0, 0], [10, 0], [10, 10 :: int]] {''open''}))))) = Inr ()
   \<and> u_edges (snd (update_vertex no_cast 0 [5, 5]
     (snd (edges (snd (init [[0, 0], [10, 0], [10, 10 :: int]] {''open''})))))) = None
   \<and> fst (draw_outline_edges (snd (update_vertex no_cast 0 [5, 5]
     (snd (edges (snd (init [[0, 0], [10, 0], [10, 10 :: int]] {''open''})))))))
       = Inr (Some (Arr2 2 [[0, 1], [1, 2]]))"
  by (simp add: init_def vertices_setter_def sanitize_vertex_list_def zeros_col_def
        edges_def compute_poly_edges_def compute_outline_edges_def
        vstack_transpose_def arange_def Let_def update_vertex_def no_cast_def normalize_index_def
        draw_outline_edges_def upt_rec)

subsection \<open>The setter and the edge cache\<close>

lemma vertices_setter_keeps_edges:
  "u_edges (snd (vertices_setter V s)) = u_edges s
   \<and> u_outline (snd (vertices_setter V s)) = u_outline s"
  by (simp add: vertices_setter_def Let_def split: sum.splits)

text \<open>
  Claim C1 fails on the setter. A triangle is constructed and \<^verbatim>\<open>edges\<close> is read
  (three edges); then four vertices are assigned through the setter, which returns
  and stores them; the next read of \<^verbatim>\<open>edges\<close> still returns the three edges of
  the triangle. \<^verbatim>\<open>update_vertex\<close> and the commit of an edit session do reset
  \<^verbatim>\<open>_edges\<close> (\<open>update_vertex_edges_reset\<close>, \<open>edit_exit_edges_reset\<close>).
\<close>

theorem setter_keeps_cached_edges:
  "fst (edges (snd (init [[0, 0], [10, 0], [10, 10 :: int]] {''closed''})))
     = Inr (Some (Arr2 2 [[0, 1], [1, 2], [2, 0]]))
   \<and> fst (vertices_setter [[0, 0], [10, 0], [10, 10], [0, 10]]
        (snd (edges (snd (init [[0, 0], [10, 0], [10, 10 :: int]] {''closed''}))))) = Inr ()
   \<and> u_vertices (snd (vertices_setter [[0, 0], [10, 0], [10, 10], [0, 10]]
        (snd (edges (snd (init [[0, 0], [10, 0], [10, 10 :: int]] {''closed''}))))))
       = Arr2 2 [[0, 0], [10, 0], [10, 10], [0, 10]]
   \<and> fst (edges (snd (vertices_setter [[0, 0], [10, 0], [10, 10], [0, 10]]
        (snd (edges (snd (init [[0, 0], [10, 0], [10, 10 :: int]] {''closed''})))))))
       = Inr (Some (Arr2 2 [[0, 1], [1, 2], [2, 0]]))"
  by (simp add: init_def vertices_setter_def sanitize_vertex_list_def zeros_col_def
        edges_def compute_poly_edges_def compute_outline_edges_def
        vstack_transpose_def arange_def Let_def upt_rec)

subsection \<open>Triangulation on demand\<close>








subsection \<open>Edit sessions\<close>

lemma edit_exit_ok:
  assumes "u_vertex_cache s = Some buf" and "buf \<noteq> []"
    and "list_all (\<lambda>v. length v = 2 \<or> length v = 3) buf"
  shows "edit_exit s =
           (Inr (), s\<lparr>u_vertices := Arr2 2 (map (take 2) buf),
                      u_outline_vertices := Some (Arr2 3 (map (\<lambda>r. r @ [0]) (map (take 2) buf))),
                      u_tri_vertices := None,
                      u_tri_edges := None,
                      u_tri_faces := None,
                      u_in_edit_mode := False,
                      u_edges := None\<rparr>)"
  using assms by (simp add: edit_exit_def vertices_setter_ok)

text \<open>When the body raises, the statements after the \<^verbatim>\<open>yield\<close> are not run.\<close>

lemma edit_body_raises:
  "\<not> u_in_edit_mode s \<Longrightarrow> body (snd (edit_enter reset s)) = (Inl e, s2) \<Longrightarrow>
   edit reset body s = (Inl e, s2)"
  by (simp add: edit_def edit_enter_def Let_def)

text \<open>
  Claim C2, as amended. For a shape that is not being edited, when the body of the
  \<^verbatim>\<open>with\<close> statement completes normally and the session buffer is then a
  non-empty sequence of points of two or three components, the closing step runs:
  the buffer is committed through the sanitizer (the store holds the first two
  components of every buffered point), the edit flag is cleared, and the edge and
  triangulation caches are reset.
\<close>

theorem edit_commits_on_normal_exit:
  assumes "\<not> u_in_edit_mode s"
    and "body (snd (edit_enter reset s)) = (Inr (), s2)"
    and "u_vertex_cache s2 = Some buf"
    and "buf \<noteq> []"
    and "\<forall>v \<in> set buf. length v = 2 \<or> length v = 3"
  shows "fst (edit reset body s) = Inr ()
         \<and> \<not> u_in_edit_mode (snd (edit reset body s))
         \<and> u_vertices (snd (edit reset body s)) = Arr2 2 (map (take 2) buf)
         \<and> u_edges (snd (edit reset body s)) = None
         \<and> u_tri_vertices (snd (edit reset body s)) = None
         \<and> u_tri_edges (snd (edit reset body s)) = None
         \<and> u_tri_faces (snd (edit reset body s)) = None"
proof -
  from assms(5) have ok: "list_all (\<lambda>v. length v = 2 \<or> length v = 3) buf"
    by (simp add: list_all_iff)
  obtain s1 where en: "edit_enter reset s = (Inr (), s1)"
    using assms(1) by (simp add: edit_enter_def Let_def)
  with assms(2) have b: "body s1 = (Inr (), s2)" by simp
  have "edit reset body s = edit_exit s2"
    by (simp add: edit_def en b)
  with edit_exit_ok [OF assms(3) assms(4) ok] show ?thesis by simp
qed

theorem edit_commits_on_normal_exit_witness:
  "\<not> u_in_edit_mode (snd (init [[5, 5 :: int]] {''closed''}))
   \<and> u_vertex_cache (snd (then_do (add_vertex [0, 0]) (then_do (add_vertex [1, 0]) (add_vertex [1, 1]))
        (snd (edit_enter True (snd (init [[5, 5 :: int]] {''closed''}))))))
       = Some [[0, 0], [1, 0], [1, 1]]
   \<and> fst (edit True (then_do (add_vertex [0, 0]) (then_do (add_vertex [1, 0]) (add_vertex [1, 1])))
        (snd (init [[5, 5 :: int]] {''closed''}))) = Inr ()
   \<and> \<not> u_in_edit_mode (snd (edit True
        (then_do (add_vertex [0, 0]) (then_do (add_vertex [1, 0]) (add_vertex [1, 1])))
        (snd (init [[5, 5 :: int]] {''closed''}))))
   \<and> u_vertices (snd (edit True
        (then_do (add_vertex [0, 0]) (then_do (add_vertex [1, 0]) (add_vertex [1, 1])))
        (snd (init [[5, 5 :: int]] {''closed''}))))
       = Arr2 2 [[0, 0], [1, 0], [1, 1]]"
proof -
  have i: "\<not> u_in_edit_mode (snd (init [[5, 5 :: int]] {''closed''}))"
    by (simp add: init_def vertices_setter_def sanitize_vertex_list_def zeros_col_def)
  have b: "then_do (add_vertex [0, 0]) (then_do (add_vertex [1, 0]) (add_vertex [1, 1]))
             (snd (edit_enter True (snd (init [[5, 5 :: int]] {''closed''}))))
           = (Inr (), snd (then_do (add_vertex [0, 0]) (then_do (add_vertex [1, 0]) (add_vertex [1, 1]))
             (snd (edit_enter True (snd (init [[5, 5 :: int]] {''closed''}))))))"
    by (simp add: init_def vertices_setter_def sanitize_vertex_list_def zeros_col_def
        edit_enter_def then_do_def add_vertex_def ensure_editable_def Let_def)
  have c: "u_vertex_cache (snd (then_do (add_vertex [0, 0]) (then_do (add_vertex [1, 0]) (add_vertex [1, 1]))
        (snd (edit_enter True (snd (init [[5, 5 :: int]] {''closed''}))))))
       = Some [[0, 0], [1, 0], [1, 1]]"
    by (simp add: init_def vertices_setter_def sanitize_vertex_list_def zeros_col_def
        edit_enter_def then_do_def add_vertex_def ensure_editable_def Let_def)
  from edit_commits_on_normal_exit
        [where s = "snd (init [[5, 5 :: int]] {''closed''})" and reset = True
           and body = "then_do (add_vertex [0, 0]) (then_do (add_vertex [1, 0]) (add_vertex [1, 1]))"
           and buf = "[[0, 0], [1, 0], [1, 1]]", OF i b c] i c
  show ?thesis by simp
qed

text \<open>
  Claim C2 as stated fails. A body that raises (here \<^verbatim>\<open>update_vertex\<close> with a
  point of three components) leaves the shape in edit mode, and the next
  \<^verbatim>\<open>edit\<close> is refused. A body that completes normally after buffering a point
  of one component makes the commit raise before the flag is cleared, with the same
  result.
\<close>

theorem edit_body_raises_counterexample:
  "fst (edit True (update_vertex no_cast 0 [1, 2, 3]) (snd (init [[0, 0], [10, 0], [10, 10 :: int]] {''closed''})))
     = Inl (ValueError ''Wrong vertex dimension'')
   \<and> u_in_edit_mode (snd (edit True (update_vertex no_cast 0 [1, 2, 3])
        (snd (init [[0, 0], [10, 0], [10, 10 :: int]] {''closed''}))))
   \<and> fst (edit True (add_vertex [0, 0]) (snd (edit True (update_vertex no_cast 0 [1, 2, 3])
        (snd (init [[0, 0], [10, 0], [10, 10 :: int]] {''closed''})))))
     = Inl (ValueError ''Shape is being edited already'')
   \<and> fst (edit True (add_vertex [5]) (snd (init [[0, 0], [10, 0], [10, 10 :: int]] {''closed''})))
     = Inl (ValueError ''unexpected vertex dimension'')
   \<and> u_in_edit_mode (snd (edit True (add_vertex [5])
        (snd (init [[0, 0], [10, 0], [10, 10 :: int]] {''closed''}))))"
  by (simp add: init_def vertices_setter_def sanitize_vertex_list_def zeros_col_def
        edit_def edit_enter_def edit_exit_def update_vertex_def no_cast_def add_vertex_def
        ensure_editable_def Let_def)

end
